theory Spec2Isabelle
  imports Complex_Main "HOL-Library.AList"
begin

section \<open>Bakery inventory: unit catalog, conversion engine, inventory store\<close>

text \<open>
  A shallow embedding of \<^verbatim>\<open>bakery.py\<close>. Python floats are modelled as exact
  rationals (\<^typ>\<open>rat\<close>): the decimal literals of the factor table are the rationals
  they denote, and \<open>*\<close>, \<open>/\<close>, \<open>+\<close>, \<open>-\<close> are exact. Rounding error, overflow and
  underflow of binary floating point are outside this model. Dictionaries are
  association lists in insertion order. A failing dictionary subscript or a division
  by zero is an explicit \<open>Inl\<close> value.
\<close>

subsection \<open>Unit catalog\<close>

datatype py_error = KeyError | ZeroDivisionError

definition CONVERSION_FACTORS :: "(string \<times> (string \<times> rat) list) list" where
  "CONVERSION_FACTORS =
    [(''mass'',
        [(''mg'', 1 / 1000),
         (''g'', 1),
         (''kg'', 1000),
         (''oz'', 283495 / 10000),
         (''lb'', 453592 / 1000)]),
     (''volume'',
        [(''ml'', 1),
         (''l'', 1000),
         (''tsp'', 492892 / 100000),
         (''tbsp'', 147868 / 10000)])]"

text \<open>\<^verbatim>\<open>[unit for cat in CONVERSION_FACTORS.values() for unit in cat]\<close>\<close>

definition get_all_units :: "string list" where
  "get_all_units = concat (map (\<lambda>cat. map fst (snd cat)) CONVERSION_FACTORS)"

text \<open>
  The loop of \<^verbatim>\<open>get_unit_type\<close> over the categories in table order: the first
  category that has the unit as a key, \<open>None\<close> when no category has it.
\<close>

fun get_unit_type_loop :: "(string \<times> (string \<times> rat) list) list \<Rightarrow> string \<Rightarrow> string option" where
  "get_unit_type_loop [] u = None"
| "get_unit_type_loop ((category, units) # rest) u =
     (if u \<in> set (map fst units) then Some category else get_unit_type_loop rest u)"

definition get_unit_type :: "string \<Rightarrow> string option" where
  "get_unit_type u = get_unit_type_loop CONVERSION_FACTORS u"

text \<open>The subscript \<^verbatim>\<open>d[k]\<close> of a dictionary, which raises on a missing key.\<close>

definition subscript :: "('k \<times> 'v) list \<Rightarrow> 'k \<Rightarrow> py_error + 'v" where
  "subscript d k = (case map_of d k of None \<Rightarrow> Inl KeyError | Some v \<Rightarrow> Inr v)"

text \<open>\<^verbatim>\<open>CONVERSION_FACTORS[category][unit]\<close>\<close>

definition factor_of :: "string \<Rightarrow> string \<Rightarrow> py_error + rat" where
  "factor_of category u =
     (case subscript CONVERSION_FACTORS category of
        Inl e \<Rightarrow> Inl e
      | Inr units \<Rightarrow> subscript units u)"

text \<open>Float division, which raises on a zero divisor.\<close>

definition py_div :: "rat \<Rightarrow> rat \<Rightarrow> py_error + rat" where
  "py_div a b = (if b = 0 then Inl ZeroDivisionError else Inr (a / b))"

subsection \<open>Conversion engine\<close>

definition convert_unit :: "rat \<Rightarrow> string \<Rightarrow> string \<Rightarrow> py_error + rat option" where
  "convert_unit val from_unit to_unit =
     (let from_type = get_unit_type from_unit;
          to_type = get_unit_type to_unit
      in if from_type \<noteq> to_type \<or> from_type = None then Inr None
         else (case (from_type, to_type) of
             (Some ft, Some tt) \<Rightarrow>
               (case factor_of ft from_unit of
                  Inl e \<Rightarrow> Inl e
                | Inr ff \<Rightarrow>
                    (let base_value = val * ff
                     in case factor_of tt to_unit of
                          Inl e \<Rightarrow> Inl e
                        | Inr tf \<Rightarrow>
                            (case py_div base_value tf of
                               Inl e \<Rightarrow> Inl e
                             | Inr r \<Rightarrow> Inr (Some r))))
           | _ \<Rightarrow> Inr None))"

text \<open>
  \<^verbatim>\<open>round(x, 2)\<close>: the nearest multiple of \<open>1/100\<close>, a tie going to the even
  multiple.
\<close>

definition round_half_even :: "rat \<Rightarrow> int" where
  "round_half_even r =
     (let f = \<lfloor>r\<rfloor>; d = r - of_int f
      in if d < 1 / 2 then f
         else if 1 / 2 < d then f + 1
         else if even f then f else f + 1)"

definition py_round2 :: "rat \<Rightarrow> rat" where
  "py_round2 x = of_int (round_half_even (x * 100)) / 100"

text \<open>
  The \<^verbatim>\<open>for\<close> loop of \<^verbatim>\<open>auto_convert\<close> over the units in descending order of
  factor: it returns at the first unit whose factor the quantity reaches, and falls
  through with \<open>None\<close> when there is none.
\<close>

fun auto_convert_loop :: "rat \<Rightarrow> (string \<times> rat) list \<Rightarrow> py_error + (rat \<times> string) option" where
  "auto_convert_loop quantity [] = Inr None"
| "auto_convert_loop quantity ((bigger_unit, factor) # rest) =
     (if factor \<le> quantity
      then (case py_div quantity factor of
              Inl e \<Rightarrow> Inl e
            | Inr r \<Rightarrow> Inr (Some (py_round2 r, bigger_unit)))
      else auto_convert_loop quantity rest)"

definition auto_convert :: "rat \<Rightarrow> string \<Rightarrow> py_error + (rat \<times> string)" where
  "auto_convert quantity u =
     (case get_unit_type u of
        None \<Rightarrow> Inr (quantity, u)
      | Some unit_type \<Rightarrow>
          if unit_type = [] then Inr (quantity, u)
          else (case subscript CONVERSION_FACTORS unit_type of
                  Inl e \<Rightarrow> Inl e
                | Inr units \<Rightarrow>
                   (let sorted_units = sort_key snd units
                    in (case auto_convert_loop quantity (rev sorted_units) of
                          Inl e \<Rightarrow> Inl e
                        | Inr None \<Rightarrow> Inr (quantity, u)
                        | Inr (Some res) \<Rightarrow> Inr res))))"

text \<open>
  \<^verbatim>\<open>get_validated_positive_float\<close> over the lines the user types, each already
  parsed (\<open>None\<close> where \<^verbatim>\<open>float\<close> raises \<^verbatim>\<open>ValueError\<close>): the first value greater
  than zero. The result is \<open>None\<close> when the input ends before such a value.
\<close>

fun get_validated_positive_float :: "rat option list \<Rightarrow> rat option" where
  "get_validated_positive_float [] = None"
| "get_validated_positive_float (None # rest) = get_validated_positive_float rest"
| "get_validated_positive_float (Some v # rest) =
     (if 0 < v then Some v else get_validated_positive_float rest)"

subsection \<open>Inventory store\<close>

text \<open>
  The global \<^verbatim>\<open>inventory\<close> dictionary is passed in and returned. The operations take
  the values their prompts read: the name after \<^verbatim>\<open>strip().lower()\<close>, the unit likewise,
  and the quantity that \<^verbatim>\<open>get_validated_positive_float\<close> returned. What an operation
  prints is its \<open>outcome\<close>.
\<close>

record entry =
  unit :: string
  quantity :: rat

type_synonym inventory = "(string \<times> entry) list"

datatype outcome =
    Done
  | EmptyName
  | UnknownUnit
  | IncompatibleUnits
  | NotFound
  | InsufficientStock
  | Raised py_error

definition add_ingredient :: "inventory \<Rightarrow> string \<Rightarrow> string \<Rightarrow> rat \<Rightarrow> outcome \<times> inventory" where
  "add_ingredient inventory name u q =
     (if name = [] then (EmptyName, inventory)
      else if u \<notin> set get_all_units then (UnknownUnit, inventory)
      else (case map_of inventory name of
              Some cur \<Rightarrow>
                (let current_unit = unit cur; current_quantity = quantity cur
                 in if current_quantity = 0
                    then (Done, AList.update name \<lparr>unit = u, quantity = q\<rparr> inventory)
                    else (case convert_unit q u current_unit of
                            Inl e \<Rightarrow> (Raised e, inventory)
                          | Inr None \<Rightarrow> (IncompatibleUnits, inventory)
                          | Inr (Some converted_quantity) \<Rightarrow>
                              (Done, AList.update name
                                 (cur\<lparr>quantity := quantity cur + converted_quantity\<rparr>) inventory)))
            | None \<Rightarrow> (Done, AList.update name \<lparr>unit = u, quantity = q\<rparr> inventory)))"

definition consume_ingredient :: "inventory \<Rightarrow> string \<Rightarrow> string \<Rightarrow> rat \<Rightarrow> outcome \<times> inventory" where
  "consume_ingredient inventory name consumption_unit consumption_quantity =
     (case map_of inventory name of
        None \<Rightarrow> (NotFound, inventory)
      | Some current_data \<Rightarrow>
          if consumption_unit \<notin> set get_all_units then (UnknownUnit, inventory)
          else (case convert_unit consumption_quantity consumption_unit (unit current_data) of
                  Inl e \<Rightarrow> (Raised e, inventory)
                | Inr None \<Rightarrow> (IncompatibleUnits, inventory)
                | Inr (Some converted_quantity) \<Rightarrow>
                    if quantity current_data < converted_quantity
                    then (InsufficientStock, inventory)
                    else (Done, AList.update name
                            (current_data\<lparr>quantity := quantity current_data - converted_quantity\<rparr>)
                            inventory)))"

text \<open>
  One pass of the loop of \<^verbatim>\<open>search_ingredient\<close>: the entry found, with the line
  \<^verbatim>\<open>auto_convert\<close> adds when it picks another unit. The inventory is only read.
\<close>

definition search_ingredient :: "inventory \<Rightarrow> string \<Rightarrow> py_error + (entry \<times> (rat \<times> string) option) option" where
  "search_ingredient inventory name =
     (case map_of inventory name of
        None \<Rightarrow> Inr None
      | Some data \<Rightarrow>
          (case auto_convert (quantity data) (unit data) of
             Inl e \<Rightarrow> Inl e
           | Inr (converted_qty, bigger_unit) \<Rightarrow>
               Inr (Some (data, if bigger_unit \<noteq> unit data
                                then Some (converted_qty, bigger_unit) else None))))"



subsection \<open>The scaling rule in the specification's words\<close>

text \<open>
  The specification's \<open>auto_scale\<close>: the quantity is first expressed in the base unit
  of the category, \<open>b = q * factor u\<close>, and the units are scanned in descending order
  of factor for the first one that \<open>b\<close> reaches. It reuses the scan and the sorting of
  \<open>auto_convert\<close> and differs from it only in the value that is compared and divided.
\<close>

definition auto_scale_spec :: "rat \<Rightarrow> string \<Rightarrow> py_error + (rat \<times> string)" where
  "auto_scale_spec q u =
     (case get_unit_type u of
        None \<Rightarrow> Inr (q, u)
      | Some category \<Rightarrow>
          (case factor_of category u of
             Inl e \<Rightarrow> Inl e
           | Inr fu \<Rightarrow>
               (case subscript CONVERSION_FACTORS category of
                  Inl e \<Rightarrow> Inl e
                | Inr units \<Rightarrow>
                    (case auto_convert_loop (q * fu) (rev (sort_key snd units)) of
                       Inl e \<Rightarrow> Inl e
                     | Inr None \<Rightarrow> Inr (q, u)
                     | Inr (Some res) \<Rightarrow> Inr res))))"

subsection \<open>The invariant of the store\<close>


section \<open>The unit catalog\<close>

lemma get_unit_type_cases:
  "get_unit_type u = Some c \<Longrightarrow>
     (c = ''mass'' \<and> u \<in> {''mg'', ''g'', ''kg'', ''oz'', ''lb''}) \<or>
     (c = ''volume'' \<and> u \<in> {''ml'', ''l'', ''tsp'', ''tbsp''})"
  by (auto simp: get_unit_type_def CONVERSION_FACTORS_def split: if_splits)

lemma factor_of_table:
  "factor_of ''mass'' ''mg'' = Inr (1 / 1000)"
  "factor_of ''mass'' ''g'' = Inr 1"
  "factor_of ''mass'' ''kg'' = Inr 1000"
  "factor_of ''mass'' ''oz'' = Inr (283495 / 10000)"
  "factor_of ''mass'' ''lb'' = Inr (453592 / 1000)"
  "factor_of ''volume'' ''ml'' = Inr 1"
  "factor_of ''volume'' ''l'' = Inr 1000"
  "factor_of ''volume'' ''tsp'' = Inr (492892 / 100000)"
  "factor_of ''volume'' ''tbsp'' = Inr (147868 / 10000)"
  by (simp_all add: factor_of_def subscript_def CONVERSION_FACTORS_def)

text \<open>Every unit of the catalog has a factor in its category, and the factor is positive.\<close>

lemma factor_of_known:
  assumes "get_unit_type u = Some c"
  shows "\<exists>f. factor_of c u = Inr f \<and> 0 < f"
proof -
  from get_unit_type_cases [OF assms]
  have "(case factor_of c u of Inl e \<Rightarrow> False | Inr f \<Rightarrow> 0 < f)"
    by (elim disjE conjE insertE emptyE; simp add: factor_of_table)
  then show ?thesis
    by (cases "factor_of c u") simp_all
qed


lemma get_validated_positive_float_pos:
  "get_validated_positive_float inputs = Some v \<Longrightarrow> 0 < v"
  by (induction inputs rule: get_validated_positive_float.induct) (auto split: if_splits)

section \<open>The conversion engine\<close>

lemma convert_unit_incompatible:
  "get_unit_type f \<noteq> get_unit_type t \<or> get_unit_type f = None \<Longrightarrow> convert_unit v f t = Inr None"
  by (simp add: convert_unit_def)

lemma convert_unit_compatible:
  assumes f: "get_unit_type f = Some c" and t: "get_unit_type t = Some c"
  shows "\<exists>ff tf. factor_of c f = Inr ff \<and> factor_of c t = Inr tf \<and> 0 < ff \<and> 0 < tf \<and>
           convert_unit v f t = Inr (Some (v * ff / tf))"
proof -
  from factor_of_known [OF f] obtain ff where ff: "factor_of c f = Inr ff" "0 < ff" by blast
  from factor_of_known [OF t] obtain tf where tf: "factor_of c t = Inr tf" "0 < tf" by blast
  have "convert_unit v f t = Inr (Some (v * ff / tf))"
    using f t ff tf by (simp add: convert_unit_def py_div_def)
  with ff tf show ?thesis by blast
qed

text \<open>
  Claim C7. \<open>convert_unit\<close> returns \<open>None\<close> exactly when the two units resolve to
  different categories or one of them is unknown. In every other case both units have
  a factor in their common category, and the result is the value times the factor of
  the source unit divided by the factor of the target unit, not rounded.
\<close>

theorem convert_unit_result:
  "(convert_unit v f t = Inr None \<longleftrightarrow>
      get_unit_type f \<noteq> get_unit_type t \<or> get_unit_type f = None \<or> get_unit_type t = None) \<and>
   (\<forall>c. get_unit_type f = Some c \<and> get_unit_type t = Some c \<longrightarrow>
      (\<exists>ff tf. factor_of c f = Inr ff \<and> factor_of c t = Inr tf \<and>
         convert_unit v f t = Inr (Some (v * ff / tf))))"
proof (intro conjI allI impI iffI)
  assume none: "convert_unit v f t = Inr None"
  show "get_unit_type f \<noteq> get_unit_type t \<or> get_unit_type f = None \<or> get_unit_type t = None"
  proof (rule ccontr)
    assume "\<not> ?thesis"
    then obtain c where "get_unit_type f = Some c" "get_unit_type t = Some c" by auto
    from convert_unit_compatible [OF this, of v] none
    show False by auto
  qed
next
  assume "get_unit_type f \<noteq> get_unit_type t \<or> get_unit_type f = None \<or> get_unit_type t = None"
  then have "get_unit_type f \<noteq> get_unit_type t \<or> get_unit_type f = None" by auto
  then show "convert_unit v f t = Inr None" by (rule convert_unit_incompatible)
next
  fix c assume "get_unit_type f = Some c \<and> get_unit_type t = Some c"
  then have "get_unit_type f = Some c" "get_unit_type t = Some c" by auto
  from convert_unit_compatible [OF this, of v]
  show "\<exists>ff tf. factor_of c f = Inr ff \<and> factor_of c t = Inr tf \<and>
         convert_unit v f t = Inr (Some (v * ff / tf))" by blast
qed

theorem convert_unit_result_witness:
  "get_unit_type ''kg'' = Some ''mass'' \<and> get_unit_type ''g'' = Some ''mass'' \<and>
   convert_unit 3 ''kg'' ''g'' = Inr (Some 3000) \<and>
   get_unit_type ''ml'' \<noteq> get_unit_type ''kg'' \<and> convert_unit 3 ''ml'' ''kg'' = Inr None"
proof -
  have k: "get_unit_type ''kg'' = Some ''mass''" and g: "get_unit_type ''g'' = Some ''mass''"
    and m: "get_unit_type ''ml'' = Some ''volume''" by code_simp+
  from convert_unit_result [of 3 "''kg''" "''g''"] k g
  have "\<exists>ff tf. factor_of ''mass'' ''kg'' = Inr ff \<and> factor_of ''mass'' ''g'' = Inr tf \<and>
         convert_unit 3 ''kg'' ''g'' = Inr (Some (3 * ff / tf))" by blast
  then have a: "convert_unit 3 ''kg'' ''g'' = Inr (Some 3000)"
    by (auto simp: factor_of_table)
  have d: "get_unit_type ''ml'' \<noteq> get_unit_type ''kg''" by (simp add: k m)
  with convert_unit_result [of 3 "''ml''" "''kg''"]
  have b: "convert_unit 3 ''ml'' ''kg'' = Inr None" by blast
  from k g a d b show ?thesis by blast
qed



section \<open>Scaling for display\<close>

text \<open>
  Claim C1. The claim has \<open>auto_scale\<close> compare the quantity expressed in the base
  unit with the factors. \<open>auto_convert\<close> compares and divides the quantity as given,
  in whatever unit it is: for 2 kg it answers 2 g, where the rule of the claim gives
  2 kg.
\<close>

theorem auto_convert_ignores_input_unit:
  "auto_convert 2 ''kg'' = Inr (2, ''g'') \<and> auto_scale_spec 2 ''kg'' = Inr (2, ''kg'')"
  by code_simp

text \<open>
  Claim C2, as stated: 1500 g scales to 1.5 kg, and 500 g is returned unchanged.
  The second half fails: the pound, of factor 453.592, fits into 500 g.
\<close>

theorem auto_convert_500_g_changed:
  "auto_convert 500 ''g'' \<noteq> Inr (500, ''g'')"
  by code_simp

text \<open>
  Claim C2, amended: 1500 g scales to 1.5 kg, and 500 g scales to 1.1 lb, the pound
  being the unit of largest factor that 500 reaches.
\<close>

theorem auto_convert_examples:
  "auto_convert 1500 ''g'' = Inr (3 / 2, ''kg'') \<and> auto_convert 500 ''g'' = Inr (11 / 10, ''lb'')"
  by code_simp

text \<open>
  Claim C9. \<open>auto_convert\<close> can answer with a unit of strictly smaller factor than the
  unit it was given: half a gram is shown as 500 mg, the milligram's factor 0.001
  being below the gram's factor 1.
\<close>

theorem auto_convert_scales_down:
  "auto_convert (1 / 2) ''g'' = Inr (500, ''mg'') \<and>
   factor_of ''mass'' ''mg'' = Inr (1 / 1000) \<and> factor_of ''mass'' ''g'' = Inr 1 \<and>
   (1 / 1000 :: rat) < 1"
  by code_simp

section \<open>The inventory store\<close>

lemma update_absent: "map_of al k = None \<Longrightarrow> AList.update k v al = al @ [(k, v)]"
  by (induction al) (auto split: if_splits)




lemma unit_lookups:
  "get_unit_type ''g'' = Some ''mass''" "get_unit_type ''kg'' = Some ''mass''"
  "get_unit_type ''lb'' = Some ''mass''" "get_unit_type ''ml'' = Some ''volume''"
  "''g'' \<in> set get_all_units" "''kg'' \<in> set get_all_units"
  "''lb'' \<in> set get_all_units" "''ml'' \<in> set get_all_units"
  by code_simp+


lemma add_ingredient_converted:
  assumes "name \<noteq> []" and "u \<in> set get_all_units"
    and "map_of inventory name = Some cur" and "quantity cur \<noteq> 0"
    and "convert_unit q u (unit cur) = Inr (Some c)"
  shows "add_ingredient inventory name u q =
           (Done, AList.update name (cur\<lparr>quantity := quantity cur + c\<rparr>) inventory)"
  using assms by (simp add: add_ingredient_def)

lemma add_ingredient_incompatible:
  assumes "name \<noteq> []" and "u \<in> set get_all_units"
    and "map_of inventory name = Some cur" and "quantity cur \<noteq> 0"
    and "convert_unit q u (unit cur) = Inr None"
  shows "add_ingredient inventory name u q = (IncompatibleUnits, inventory)"
  using assms by (simp add: add_ingredient_def)

text \<open>
  Claim C4. For a non-empty name, a unit of the catalog and a quantity greater than
  zero: on an entry of positive quantity, a unit of the entry's category adds the
  quantity converted into the entry's unit and leaves that unit as it is; a unit of
  another category gives \<open>IncompatibleUnits\<close> and the inventory as it was. On a name
  that is not in the inventory, a new entry with exactly the given unit and quantity is
  appended. The example of the claim (500 g, then 300 g, then 1 kg of flour give
  1800 g) is the witness.
\<close>

theorem add_ingredient_cases:
  assumes q: "0 < q" and n: "name \<noteq> []" and u: "u \<in> set get_all_units"
  shows "(\<forall>cur. map_of inventory name = Some cur \<and> 0 < quantity cur \<longrightarrow>
            (get_unit_type u \<noteq> get_unit_type (unit cur) \<longrightarrow>
               add_ingredient inventory name u q = (IncompatibleUnits, inventory)) \<and>
            (\<forall>c. get_unit_type u = Some c \<and> get_unit_type (unit cur) = Some c \<longrightarrow>
               (\<exists>ff tf. factor_of c u = Inr ff \<and> factor_of c (unit cur) = Inr tf \<and>
                  add_ingredient inventory name u q =
                    (Done, AList.update name
                             (cur\<lparr>quantity := quantity cur + q * ff / tf\<rparr>) inventory) \<and>
                  map_of (snd (add_ingredient inventory name u q)) name =
                    Some \<lparr>unit = unit cur, quantity = quantity cur + q * ff / tf\<rparr>))) \<and>
         (map_of inventory name = None \<longrightarrow>
            add_ingredient inventory name u q =
              (Done, inventory @ [(name, \<lparr>unit = u, quantity = q\<rparr>)]) \<and>
            map_of (snd (add_ingredient inventory name u q)) name =
              Some \<lparr>unit = u, quantity = q\<rparr>)"
proof (intro conjI allI impI)
  fix cur
  assume a: "map_of inventory name = Some cur \<and> 0 < quantity cur"
    and d: "get_unit_type u \<noteq> get_unit_type (unit cur)"
  from d have "convert_unit q u (unit cur) = Inr None"
    by (simp add: convert_unit_incompatible)
  with a n u show "add_ingredient inventory name u q = (IncompatibleUnits, inventory)"
    by (simp add: add_ingredient_incompatible)
next
  fix cur c
  assume a: "map_of inventory name = Some cur \<and> 0 < quantity cur"
    and s: "get_unit_type u = Some c \<and> get_unit_type (unit cur) = Some c"
  from s have "get_unit_type u = Some c" "get_unit_type (unit cur) = Some c" by simp_all
  from convert_unit_compatible [OF this, of q]
  obtain ff tf where ff: "factor_of c u = Inr ff" and tf: "factor_of c (unit cur) = Inr tf"
    and cv: "convert_unit q u (unit cur) = Inr (Some (q * ff / tf))" by blast
  from a n u cv have r: "add_ingredient inventory name u q =
      (Done, AList.update name (cur\<lparr>quantity := quantity cur + q * ff / tf\<rparr>) inventory)"
    by (simp add: add_ingredient_converted)
  then have "map_of (snd (add_ingredient inventory name u q)) name =
      Some \<lparr>unit = unit cur, quantity = quantity cur + q * ff / tf\<rparr>"
    by (simp add: update_conv')
  with ff tf r
  show "\<exists>ff tf. factor_of c u = Inr ff \<and> factor_of c (unit cur) = Inr tf \<and>
          add_ingredient inventory name u q =
            (Done, AList.update name (cur\<lparr>quantity := quantity cur + q * ff / tf\<rparr>) inventory) \<and>
          map_of (snd (add_ingredient inventory name u q)) name =
            Some \<lparr>unit = unit cur, quantity = quantity cur + q * ff / tf\<rparr>"
    by blast
next
  assume a: "map_of inventory name = None"
  with n u show r: "add_ingredient inventory name u q =
      (Done, inventory @ [(name, \<lparr>unit = u, quantity = q\<rparr>)])"
    by (simp add: add_ingredient_def update_absent)
  from a show "map_of (snd (add_ingredient inventory name u q)) name = Some \<lparr>unit = u, quantity = q\<rparr>"
    by (simp add: r map_add_def)
qed

theorem add_ingredient_cases_witness:
  "add_ingredient [] ''flour'' ''g'' 500 = (Done, [(''flour'', \<lparr>unit = ''g'', quantity = 500\<rparr>)]) \<and>
   add_ingredient [(''flour'', \<lparr>unit = ''g'', quantity = 500\<rparr>)] ''flour'' ''g'' 300 =
     (Done, [(''flour'', \<lparr>unit = ''g'', quantity = 800\<rparr>)]) \<and>
   add_ingredient [(''flour'', \<lparr>unit = ''g'', quantity = 800\<rparr>)] ''flour'' ''kg'' 1 =
     (Done, [(''flour'', \<lparr>unit = ''g'', quantity = 1800\<rparr>)]) \<and>
   add_ingredient [(''flour'', \<lparr>unit = ''g'', quantity = 800\<rparr>)] ''flour'' ''ml'' 1 =
     (IncompatibleUnits, [(''flour'', \<lparr>unit = ''g'', quantity = 800\<rparr>)])"
proof -
  let ?c5 = "\<lparr>unit = ''g'', quantity = 500\<rparr>"
  let ?c8 = "\<lparr>unit = ''g'', quantity = 800\<rparr>"
  have nm: "''flour'' \<noteq> []" by simp
  have a: "add_ingredient [] ''flour'' ''g'' 500 = (Done, [(''flour'', ?c5)])"
    using add_ingredient_cases [of 500 "''flour''" "''g''" "[]"] by (simp add: unit_lookups)
  have g5: "get_unit_type (unit ?c5) = Some ''mass''" and g8: "get_unit_type (unit ?c8) = Some ''mass''"
    by (simp_all add: unit_lookups)
  have m5: "map_of [(''flour'', ?c5)] ''flour'' = Some ?c5 \<and> 0 < quantity ?c5"
    and m8: "map_of [(''flour'', ?c8)] ''flour'' = Some ?c8 \<and> 0 < quantity ?c8" by simp_all
  have "\<exists>ff tf. factor_of ''mass'' ''g'' = Inr ff \<and> factor_of ''mass'' (unit ?c5) = Inr tf \<and>
          add_ingredient [(''flour'', ?c5)] ''flour'' ''g'' 300 =
            (Done, AList.update ''flour'' (?c5\<lparr>quantity := quantity ?c5 + 300 * ff / tf\<rparr>)
                     [(''flour'', ?c5)])"
    using add_ingredient_cases [of 300 "''flour''" "''g''" "[(''flour'', ?c5)]"] m5 g5 nm
      unit_lookups(1,5)
    by (simp del: entry.simps) blast
  then have b: "add_ingredient [(''flour'', ?c5)] ''flour'' ''g'' 300 = (Done, [(''flour'', ?c8)])"
    by (auto simp: factor_of_table)
  have "\<exists>ff tf. factor_of ''mass'' ''kg'' = Inr ff \<and> factor_of ''mass'' (unit ?c8) = Inr tf \<and>
          add_ingredient [(''flour'', ?c8)] ''flour'' ''kg'' 1 =
            (Done, AList.update ''flour'' (?c8\<lparr>quantity := quantity ?c8 + 1 * ff / tf\<rparr>)
                     [(''flour'', ?c8)])"
    using add_ingredient_cases [of 1 "''flour''" "''kg''" "[(''flour'', ?c8)]"] m8 g8 nm
      unit_lookups(2,6)
    by (simp del: entry.simps) blast
  then have c: "add_ingredient [(''flour'', ?c8)] ''flour'' ''kg'' 1 =
                  (Done, [(''flour'', \<lparr>unit = ''g'', quantity = 1800\<rparr>)])"
    by (auto simp: factor_of_table)
  have d: "add_ingredient [(''flour'', ?c8)] ''flour'' ''ml'' 1 = (IncompatibleUnits, [(''flour'', ?c8)])"
    using add_ingredient_cases [of 1 "''flour''" "''ml''" "[(''flour'', ?c8)]"]
    by (simp add: unit_lookups)
  from a b c d show ?thesis by blast
qed

text \<open>
  Claim C5. For a non-empty name, a unit of the catalog and a quantity greater than
  zero: on an entry whose quantity is exactly 0 the entry is replaced by the new unit
  and the given quantity, with no conversion and no check against the previous unit.
  The example of the claim (flour consumed down to 0 g, then 2 lb added) is the witness.
\<close>

theorem add_ingredient_rebases:
  assumes "0 < q" and "name \<noteq> []" and "u \<in> set get_all_units"
    and "map_of inventory name = Some cur" and "quantity cur = 0"
  shows "add_ingredient inventory name u q =
           (Done, AList.update name \<lparr>unit = u, quantity = q\<rparr> inventory) \<and>
         map_of (snd (add_ingredient inventory name u q)) name = Some \<lparr>unit = u, quantity = q\<rparr>"
  using assms by (simp add: add_ingredient_def update_conv')

theorem add_ingredient_rebases_witness:
  "consume_ingredient [(''flour'', \<lparr>unit = ''g'', quantity = 800\<rparr>)] ''flour'' ''g'' 800 =
     (Done, [(''flour'', \<lparr>unit = ''g'', quantity = 0\<rparr>)]) \<and>
   add_ingredient [(''flour'', \<lparr>unit = ''g'', quantity = 0\<rparr>)] ''flour'' ''lb'' 2 =
     (Done, [(''flour'', \<lparr>unit = ''lb'', quantity = 2\<rparr>)])"
proof -
  let ?cur = "\<lparr>unit = ''g'', quantity = 0\<rparr>"
  have c: "consume_ingredient [(''flour'', \<lparr>unit = ''g'', quantity = 800\<rparr>)] ''flour'' ''g'' 800 =
             (Done, [(''flour'', ?cur)])"
    by code_simp
  have q: "(0::rat) < 2" and n: "''flour'' \<noteq> []" and u: "''lb'' \<in> set get_all_units"
    and m: "map_of [(''flour'', ?cur)] ''flour'' = Some ?cur" and z: "quantity ?cur = 0"
    by (simp_all add: unit_lookups)
  from add_ingredient_rebases [OF q n u m z]
  have "add_ingredient [(''flour'', ?cur)] ''flour'' ''lb'' 2 =
          (Done, [(''flour'', \<lparr>unit = ''lb'', quantity = 2\<rparr>)])"
    by simp
  with c show ?thesis by blast
qed



section \<open>The invariant of the store\<close>









end
